theory Spec2Isabelle
  imports Complex_Main "HOL-Library.Word"
begin

section \<open>Data model\<close>

text \<open>
  The embedding follows \<^verbatim>\<open>internal/govulncheckapi/result.go\<close> and
  \<^verbatim>\<open>internal/govulncheck/govulncheck.go\<close>. A Go struct is a record with the
  source's field names; fields that several structs share (\<^verbatim>\<open>Version\<close>,
  \<^verbatim>\<open>ModulePath\<close>, \<^verbatim>\<open>OSV\<close>, ...) are written qualified by the record.
  A pointer that the code stores in data or tests against \<^verbatim>\<open>nil\<close> is an
  \<open>option\<close>, with \<open>None\<close> for \<^verbatim>\<open>nil\<close>; the finding, the result and the
  statistics that a function is called on stand for the objects behind the pointers.
  A run-time panic is a value of type \<open>panic\<close>, returned on the left of a sum.
  A \<^verbatim>\<open>float64\<close> is a real number: no property below depends on rounding.
\<close>

text \<open>
  \<^verbatim>\<open>time.Time\<close> belongs to the standard library. The model keeps the instant a
  value denotes, as seconds since the epoch and nanoseconds within the second: these
  are the two quantities \<^verbatim>\<open>Time.Equal\<close> compares. The location a time is
  displayed in is not part of the instant and is left out.
\<close>

record Time =
  sec :: int
  nsec :: nat

definition Time_Equal :: "Time \<Rightarrow> Time \<Rightarrow> bool" where
  "Time_Equal t u \<longleftrightarrow> sec t = sec u \<and> nsec t = nsec u"

record Position =
  Filename :: string
  Offset :: int
  Line :: int
  Column :: int

record Frame =
  Module :: string
  Version :: string
  Package :: string
  Function :: string
  Receiver :: string
  Position :: "Position option"

record Finding =
  OSV :: string
  FixedVersion :: string
  Trace :: "Frame option list"

record Config =
  ProtocolVersion :: string
  ScannerName :: string
  ScannerVersion :: string
  DB :: string
  DBLastModified :: "Time option"
  GoVersion :: string
  GOOS :: string
  GOARCH :: string
  ImportsOnly :: bool

record Progress =
  Timestamp :: "Time option"
  Message :: string

text \<open>
  \<^verbatim>\<open>Message\<close> (result.go, lines 15-22): four optional payloads. The type
  \<^verbatim>\<open>osv.Entry\<close> is not among the sources and is the type parameter \<open>'entry\<close>.
\<close>

record 'entry Message =
  Config :: "Config option"
  Progress :: "Progress option"
  OSV :: "'entry option"
  Finding :: "Finding option"

record Vuln =
  ID :: string
  PackagePath :: string
  ModulePath :: string
  Version :: string
  Called :: bool

record WorkVersion =
  GoVersion :: string
  WorkerVersion :: string
  SchemaVersion :: string
  VulnDBLastModified :: Time

text \<open>\<^verbatim>\<open>bq.NullFloat64\<close>: a float with a validity flag.\<close>

record NullFloat64 =
  Float64 :: real
  Valid :: bool

record Result =
  CreatedAt :: Time
  ModulePath :: string
  Version :: string
  Suffix :: string
  SortVersion :: string
  ImportedBy :: int
  Error :: string
  ErrorCategory :: string
  CommitTime :: Time
  ScanSeconds :: real
  BinaryBuildSeconds :: NullFloat64
  ScanMemory :: "64 word"
  ScanMode :: string
  WorkVersion :: WorkVersion
  Vulns :: "Vuln option list"

record ScanStats =
  ScanSeconds :: real
  ScanMemory :: "64 word"
  BuildTime :: int

text \<open>
  Go's \<^verbatim>\<open>error\<close> values: \<^verbatim>\<open>errors.New(text)\<close>, or an error that wraps
  another one under a message of its own. \<open>error_Error\<close> is the method
  \<^verbatim>\<open>Error()\<close>. A \<^verbatim>\<open>nil\<close> error is \<open>None\<close>.
\<close>

datatype error = errorString string | wrapError string error

fun error_Error :: "error \<Rightarrow> string" where
  "error_Error (errorString s) = s"
| "error_Error (wrapError s _) = s"

datatype panic = IndexOutOfRange | NilPointerDereference

section \<open>Finding normalisation\<close>

text \<open>
  \<^verbatim>\<open>ConvertGovulncheckFinding\<close> (govulncheck.go, lines 106-120). \<open>f\<close> is the
  finding the argument points to. \<^verbatim>\<open>f.Trace[0]\<close> panics on an empty slice; the
  element is a \<^verbatim>\<open>*Frame\<close>, and reading a field through a \<^verbatim>\<open>nil\<close> one
  panics as well.
\<close>

definition ConvertGovulncheckFinding :: "Finding \<Rightarrow> panic + Vuln" where
  "ConvertGovulncheckFinding f =
     (case Trace f of
        [] \<Rightarrow> Inl IndexOutOfRange
      | None # _ \<Rightarrow> Inl NilPointerDereference
      | Some vulnerableFrame # _ \<Rightarrow>
          (let vuln = \<lparr>ID = Finding.OSV f,
                       PackagePath = Package vulnerableFrame,
                       ModulePath = Module vulnerableFrame,
                       Version = Frame.Version vulnerableFrame,
                       Called = False\<rparr>
           in Inr (if Function vulnerableFrame \<noteq> [] then vuln\<lparr>Called := True\<rparr> else vuln)))"

section \<open>Work versions\<close>

text \<open>
  \<^verbatim>\<open>WorkVersion.Equal\<close> (lines 168-176): both the receiver and the argument are
  pointers, tested against \<^verbatim>\<open>nil\<close> first.
\<close>

definition Equal :: "WorkVersion option \<Rightarrow> WorkVersion option \<Rightarrow> bool" where
  "Equal p1 p2 =
     (case (p1, p2) of
        (Some v1, Some v2) \<Rightarrow>
          GoVersion v1 = GoVersion v2 \<and>
          WorkerVersion v1 = WorkerVersion v2 \<and>
          SchemaVersion v1 = SchemaVersion v2 \<and>
          Time_Equal (VulnDBLastModified v1) (VulnDBLastModified v2)
      | _ \<Rightarrow> False)"

section \<open>Results\<close>

text \<open>
  \<^verbatim>\<open>Result.AddError\<close> (lines 180-186), as a state transformer on the result the
  receiver points to. \<^verbatim>\<open>derrors.CategorizeError\<close> is not among the sources and is
  the parameter \<open>CategorizeError\<close>.
\<close>

definition AddError :: "(error \<Rightarrow> string) \<Rightarrow> Result \<Rightarrow> error option \<Rightarrow> Result" where
  "AddError CategorizeError vr err =
     (case err of
        None \<Rightarrow> vr
      | Some e \<Rightarrow> vr\<lparr>Error := error_Error e, ErrorCategory := CategorizeError e\<rparr>)"

text \<open>
  The invariant of the data model: a result with an error text has no findings.
\<close>

definition error_excludes_vulns :: "Result \<Rightarrow> bool" where
  "error_excludes_vulns vr \<longleftrightarrow> (Error vr \<noteq> [] \<longrightarrow> Vulns vr = [])"

text \<open>
  Modelled from the spec: \<^verbatim>\<open>derrors.CategorizeError\<close>, which is not among the
  sources. Section 4.5 of the specification: the error category is a coarse
  classification such as "timeout", "build-failure", "scanner-panic", etc., computed
  from the error's content; section 7: a short classification string. A class is one of
  the three the specification names or a further one, given by its name, which has a
  first character. How the content of an error decides its class is the parameter
  \<open>classify\<close>.
\<close>

datatype category = Timeout | BuildFailure | ScannerPanic | Named char string

fun category_name :: "category \<Rightarrow> string" where
  "category_name Timeout = ''timeout''"
| "category_name BuildFailure = ''build-failure''"
| "category_name ScannerPanic = ''scanner-panic''"
| "category_name (Named c cs) = c # cs"

definition derrors_CategorizeError :: "(string \<Rightarrow> category) \<Rightarrow> error \<Rightarrow> string" where
  "derrors_CategorizeError classify err = category_name (classify (error_Error err))"

text \<open>
  Modelled from the spec: the Result Aggregator, whose code (the worker that builds the
  row of a scan) is not among the sources. Section 4.5 of the specification: it combines
  the target identity, the mode and the work version (here the row \<open>target\<close>) with
  the captured statistics, the top-level error if there is one, with its category, and
  the normalised findings, and it enforces the invariant that an error comes with no
  findings; section 7: what was decoded before a failure is discarded. The error is
  recorded by \<^verbatim>\<open>AddError\<close>.
\<close>

definition Aggregate ::
  "(error \<Rightarrow> string) \<Rightarrow> Result \<Rightarrow> ScanStats \<Rightarrow> error option \<Rightarrow> Vuln option list \<Rightarrow> Result" where
  "Aggregate categorize target stats err vulns =
     (let row = target\<lparr>Result.ScanSeconds := ScanStats.ScanSeconds stats,
                       Result.ScanMemory := ScanStats.ScanMemory stats\<rparr>
      in case err of
           None \<Rightarrow> row\<lparr>Vulns := vulns\<rparr>
         | Some e \<Rightarrow> (AddError categorize row (Some e))\<lparr>Vulns := []\<rparr>)"

section \<open>Scan runner\<close>

text \<open>
  What \<^verbatim>\<open>RunGovulncheckCmd\<close> (lines 309-339) takes from outside the program is
  explicit. \<^verbatim>\<open>exec.Command\<close> builds a command whose argument vector starts
  with the program's name. Running it yields the error of \<^verbatim>\<open>Cmd.Run\<close>
  (\<^verbatim>\<open>*ExitError\<close> for a process that ran and did not exit with status 0, another
  error when it could not be run, \<^verbatim>\<open>nil\<close> otherwise), the contents of the two
  buffers, and the \<^verbatim>\<open>time.Duration\<close> (nanoseconds) that
  \<^verbatim>\<open>time.Since(start)\<close> reads after the run.
\<close>

record Cmd =
  Path :: string
  Args :: "string list"

definition Command :: "string \<Rightarrow> string list \<Rightarrow> Cmd" where
  "Command name arg = \<lparr>Path = name, Args = name # arg\<rparr>"

datatype exec_error = ExitError int | OtherError string

record Outcome =
  run_err :: "exec_error option"
  stdOut :: string
  stdErr :: string
  since_start :: int

text \<open>
  The host: \<^verbatim>\<open>runtime.GOOS\<close>, the behaviour of the subprocess, the variable
  \<^verbatim>\<open>getMemoryUsage\<close> (lines 341-344; replaced on Linux), and the decoding of the
  scanner's output into findings (\<^verbatim>\<open>NewMetricsHandler\<close>,
  \<^verbatim>\<open>govulncheckapi.HandleJSON\<close> and \<^verbatim>\<open>handler.Findings\<close>, none of them
  among the sources).
\<close>

record Host =
  runtime_GOOS :: string
  Cmd_Run :: "Cmd \<Rightarrow> Outcome"
  getMemoryUsage :: "Cmd \<Rightarrow> 64 word"
  HandleJSON :: "string \<Rightarrow> error + Finding option list"

text \<open>The initial value of the variable \<^verbatim>\<open>getMemoryUsage\<close> (lines 342-344).\<close>

definition getMemoryUsage_default :: "Cmd \<Rightarrow> 64 word" where
  "getMemoryUsage_default c = 0"

text \<open>
  \<^verbatim>\<open>filepath.Separator\<close> and \<^verbatim>\<open>filepath.ToSlash\<close> of the standard library:
  the separator is the backslash (character 0x5C) on Windows and the slash elsewhere;
  \<^verbatim>\<open>ToSlash\<close> replaces every separator by a slash.
\<close>

definition Separator :: "string \<Rightarrow> char" where
  "Separator goos = (if goos = ''windows'' then CHR 0x5C else CHR ''/'')"

definition ToSlash :: "string \<Rightarrow> string \<Rightarrow> string" where
  "ToSlash goos path =
     (if Separator goos = CHR ''/'' then path
      else map (\<lambda>c. if c = Separator goos then CHR ''/'' else c) path)"

text \<open>\<^verbatim>\<open>Duration.Seconds\<close>: a duration in nanoseconds, as seconds.\<close>

definition Seconds :: "int \<Rightarrow> real" where
  "Seconds d = real_of_int d / 1000000000"

text \<open>
  Lines 312-321 of \<^verbatim>\<open>RunGovulncheckCmd\<close>: the database URI, the arguments and
  the command.
\<close>

definition RunGovulncheckCmd_command ::
  "string \<Rightarrow> string \<Rightarrow> string \<Rightarrow> string \<Rightarrow> string \<Rightarrow> string \<Rightarrow> Cmd" where
  "RunGovulncheckCmd_command goos govulncheckPath modeFlag pattern moduleDir vulndbDir =
     (let uri = ''file://'' @ vulndbDir;
          uri = (if goos = ''windows'' then ''file:///'' @ ToSlash goos vulndbDir else uri);
          args = [''-mode'', modeFlag, ''-json'', ''-db'', uri];
          args = (if moduleDir \<noteq> [] then args @ [''-C'', moduleDir] else args);
          args = args @ [pattern]
      in Command govulncheckPath args)"

text \<open>
  \<^verbatim>\<open>RunGovulncheckCmd\<close>, lines 323-338. The result pairs what the function
  returns (\<open>Inl\<close>: a \<^verbatim>\<open>nil\<close> slice and the error) with the statistics that
  \<^verbatim>\<open>stats\<close> points to when it returns.
\<close>

definition RunGovulncheckCmd ::
  "Host \<Rightarrow> string \<Rightarrow> string \<Rightarrow> string \<Rightarrow> string \<Rightarrow> string \<Rightarrow> ScanStats
     \<Rightarrow> (error + Finding option list) \<times> ScanStats" where
  "RunGovulncheckCmd host govulncheckPath modeFlag pattern moduleDir vulndbDir stats =
     (let govulncheckCmd =
            RunGovulncheckCmd_command (runtime_GOOS host) govulncheckPath modeFlag pattern
              moduleDir vulndbDir;
          outcome = Cmd_Run host govulncheckCmd
      in case run_err outcome of
           Some err \<Rightarrow> (Inl (errorString (stdErr outcome)), stats)
         | None \<Rightarrow>
             (let stats = stats\<lparr>ScanStats.ScanSeconds := Seconds (since_start outcome),
                                ScanStats.ScanMemory := getMemoryUsage host govulncheckCmd\<rparr>
              in case HandleJSON host (stdOut outcome) of
                   Inl err \<Rightarrow> (Inl err, stats)
                 | Inr findings \<Rightarrow> (Inr findings, stats)))"

section \<open>Message protocol decoder\<close>

text \<open>
  Modelled from the spec: the Message Protocol Decoder (the function
  \<^verbatim>\<open>govulncheckapi.HandleJSON\<close> of the repository, which is not among the
  sources). Section 4.1 of the specification: the stream is a sequence of
  independently decodable messages, each carrying exactly one of four payload kinds;
  decoding fails with \<open>MalformedMessageError\<close> if a message has zero or more than
  one populated field or if the stream is not valid structured data; messages are
  processed incrementally and in order; the end of the stream completes the decoding,
  but a stream cut in the middle of a message is a \<open>TruncatedStreamError\<close>.

  A stream is the list of its complete chunks, each a message or data that is not
  structured, and a flag telling whether a cut message follows them.
\<close>

datatype decode_error = MalformedMessageError | TruncatedStreamError

datatype 'entry payload =
  ConfigMsg Config | ProgressMsg Progress | OSVMsg 'entry | FindingMsg Finding

datatype 'entry chunk = Structured "'entry Message" | Unstructured

record 'entry stream =
  chunks :: "'entry chunk list"
  truncated :: bool

text \<open>The number of populated payload fields of a message.\<close>

definition populated :: "'entry Message \<Rightarrow> nat" where
  "populated m =
     (if Config m \<noteq> None then 1 else 0) + (if Progress m \<noteq> None then 1 else 0) +
     (if OSV m \<noteq> None then 1 else 0) + (if Finding m \<noteq> None then 1 else 0)"

text \<open>
  Modelled from the spec: the payload of a message that carries exactly one, and
  \<open>None\<close> for a message with no populated field or with several.
\<close>

definition payload_of :: "'entry Message \<Rightarrow> 'entry payload option" where
  "payload_of m =
     (case (Config m, Progress m, OSV m, Finding m) of
        (Some c, None, None, None) \<Rightarrow> Some (ConfigMsg c)
      | (None, Some p, None, None) \<Rightarrow> Some (ProgressMsg p)
      | (None, None, Some e, None) \<Rightarrow> Some (OSVMsg e)
      | (None, None, None, Some f) \<Rightarrow> Some (FindingMsg f)
      | _ \<Rightarrow> None)"

text \<open>
  Modelled from the spec: decoding chunk by chunk, in order, stopping at the first
  failure; \<open>is_cut\<close> tells whether the stream ends in the middle of a message.
\<close>

fun decode_chunks :: "'entry chunk list \<Rightarrow> bool \<Rightarrow> decode_error + 'entry payload list" where
  "decode_chunks [] is_cut = (if is_cut then Inl TruncatedStreamError else Inr [])"
| "decode_chunks (Unstructured # rest) is_cut = Inl MalformedMessageError"
| "decode_chunks (Structured m # rest) is_cut =
     (case payload_of m of
        None \<Rightarrow> Inl MalformedMessageError
      | Some p \<Rightarrow>
          (case decode_chunks rest is_cut of
             Inl e \<Rightarrow> Inl e
           | Inr ps \<Rightarrow> Inr (p # ps)))"

text \<open>Modelled from the spec: the decoder, on a stream.\<close>

definition decode :: "'entry stream \<Rightarrow> decode_error + 'entry payload list" where
  "decode s = decode_chunks (chunks s) (truncated s)"

section \<open>Example values\<close>

text \<open>
  Go's zero values of \<^verbatim>\<open>time.Time\<close> (1 January of year 1, UTC),
  \<^verbatim>\<open>Result\<close> and \<^verbatim>\<open>ScanStats\<close>, and a host on which the scanner exits with
  status 1 after 2.5 seconds, having written a cut message to its standard output and
  a diagnostic to its standard error.
\<close>

abbreviation zero_Time :: Time where
  "zero_Time \<equiv> \<lparr>sec = - 62135596800, nsec = 0\<rparr>"

abbreviation zero_Result :: Result where
  "zero_Result \<equiv>
     \<lparr>CreatedAt = zero_Time, ModulePath = [], Version = [], Suffix = [], SortVersion = [],
      ImportedBy = 0, Error = [], ErrorCategory = [], CommitTime = zero_Time,
      ScanSeconds = 0, BinaryBuildSeconds = \<lparr>Float64 = 0, Valid = False\<rparr>, ScanMemory = 0,
      ScanMode = [],
      WorkVersion = \<lparr>GoVersion = [], WorkerVersion = [], SchemaVersion = [],
                     VulnDBLastModified = zero_Time\<rparr>,
      Vulns = []\<rparr>"

abbreviation zero_ScanStats :: ScanStats where
  "zero_ScanStats \<equiv> \<lparr>ScanSeconds = 0, ScanMemory = 0, BuildTime = 0\<rparr>"

abbreviation failing_Host :: Host where
  "failing_Host \<equiv>
     \<lparr>runtime_GOOS = ''linux'',
      Cmd_Run = (\<lambda>c. \<lparr>run_err = Some (ExitError 1), stdOut = ''{'',
                        stdErr = ''db unreachable'', since_start = 2500000000\<rparr>),
      getMemoryUsage = getMemoryUsage_default,
      HandleJSON = (\<lambda>out. Inr [])\<rparr>"

text \<open>
  A host whose scanner succeeds, after one second, only when it is started with
  \<^verbatim>\<open>-db\<close> and the given URI as its fifth and sixth arguments, and fails with
  status 2 otherwise.
\<close>

abbreviation db_checking_Host :: "string \<Rightarrow> string \<Rightarrow> Host" where
  "db_checking_Host goos uri \<equiv>
     \<lparr>runtime_GOOS = goos,
      Cmd_Run = (\<lambda>c. if take 2 (drop 4 (Args c)) = [''-db'', uri]
                      then \<lparr>run_err = None, stdOut = ''findings'', stdErr = [],
                            since_start = 1000000000\<rparr>
                      else \<lparr>run_err = Some (ExitError 2), stdOut = [],
                            stdErr = ''unexpected database'', since_start = 0\<rparr>),
      getMemoryUsage = getMemoryUsage_default,
      HandleJSON = (\<lambda>out. if out = ''findings''
                         then Inr [Some \<lparr>Finding.OSV = ''GO-2023-0001'', FixedVersion = [],
                                          Trace = []\<rparr>]
                         else Inl (errorString ''invalid character''))\<rparr>"

section \<open>Finding normalisation: properties\<close>

text \<open>
  Claim C1, as the code has it. For every finding whose trace starts with a frame (the
  trace is non-empty and its first entry is not a \<^verbatim>\<open>nil\<close> pointer),
  \<^verbatim>\<open>ConvertGovulncheckFinding\<close> returns one \<open>Vuln\<close>: its \<open>ID\<close> is the
  finding's OSV id; \<open>PackagePath\<close>, \<open>ModulePath\<close> and \<open>Version\<close> are those of
  the first frame; \<open>Called\<close> holds iff the first frame's \<open>Function\<close> is not the
  empty string. Nothing else is read: the later frames and the fixed version can be
  replaced without changing the result.
\<close>

theorem ConvertGovulncheckFinding_first_frame:
  assumes "Trace f = Some fr # rest"
  shows "ConvertGovulncheckFinding f =
           Inr \<lparr>ID = Finding.OSV f, PackagePath = Package fr, ModulePath = Module fr,
                Version = Frame.Version fr, Called = (Function fr \<noteq> [])\<rparr> \<and>
         ConvertGovulncheckFinding (f\<lparr>FixedVersion := fixed, Trace := Some fr # rest'\<rparr>) =
           ConvertGovulncheckFinding f"
  using assms by (simp add: ConvertGovulncheckFinding_def Let_def)

text \<open>The end-to-end scenario of the specification, section 8.\<close>

theorem ConvertGovulncheckFinding_first_frame_witness:
  "ConvertGovulncheckFinding
     \<lparr>Finding.OSV = ''GO-2023-0001'', FixedVersion = [],
      Trace = [Some \<lparr>Module = ''example.com/m'', Frame.Version = ''v1.2.0'',
                     Package = ''example.com/m/pkg'', Function = ''Do'', Receiver = [],
                     Position = None\<rparr>]\<rparr>
   = Inr \<lparr>ID = ''GO-2023-0001'', PackagePath = ''example.com/m/pkg'',
          ModulePath = ''example.com/m'', Version = ''v1.2.0'', Called = True\<rparr>"
  using ConvertGovulncheckFinding_first_frame
    [of "\<lparr>Finding.OSV = ''GO-2023-0001'', FixedVersion = [],
          Trace = [Some \<lparr>Module = ''example.com/m'', Frame.Version = ''v1.2.0'',
                         Package = ''example.com/m/pkg'', Function = ''Do'', Receiver = [],
                         Position = None\<rparr>]\<rparr>"
        "\<lparr>Module = ''example.com/m'', Frame.Version = ''v1.2.0'',
          Package = ''example.com/m/pkg'', Function = ''Do'', Receiver = [],
          Position = None\<rparr>" "[]"]
  by simp

text \<open>
  A non-empty trace alone is not enough: the trace is a slice of pointers, and with a
  \<^verbatim>\<open>nil\<close> first entry no \<open>Vuln\<close> is returned.
\<close>

theorem ConvertGovulncheckFinding_nil_frame_counterexample:
  "Trace \<lparr>Finding.OSV = ''GO-2023-0001'', FixedVersion = [], Trace = [None]\<rparr> \<noteq> [] \<and>
   ConvertGovulncheckFinding \<lparr>Finding.OSV = ''GO-2023-0001'', FixedVersion = [], Trace = [None]\<rparr>
     = Inl NilPointerDereference"
  by (simp add: ConvertGovulncheckFinding_def)

text \<open>
  Claim C7, as the code has it. When the trace is non-empty and its first entry is not
  \<^verbatim>\<open>nil\<close>, the index 0 is within the trace and the function returns a
  \<open>Vuln\<close>. On an empty trace it panics with an index out of range, and on a
  \<^verbatim>\<open>nil\<close> first entry with a nil dereference: neither is a result.
\<close>

theorem ConvertGovulncheckFinding_defined:
  "(Trace f \<noteq> [] \<and> Trace f ! 0 \<noteq> None \<longrightarrow>
      0 < length (Trace f) \<and> (\<exists>v. ConvertGovulncheckFinding f = Inr v)) \<and>
   (Trace f = [] \<longrightarrow> ConvertGovulncheckFinding f = Inl IndexOutOfRange) \<and>
   (Trace f \<noteq> [] \<and> Trace f ! 0 = None \<longrightarrow>
      ConvertGovulncheckFinding f = Inl NilPointerDereference)"
  by (auto simp add: ConvertGovulncheckFinding_def Let_def split: list.splits option.splits)

theorem ConvertGovulncheckFinding_defined_witness:
  "\<not> isl (ConvertGovulncheckFinding
            \<lparr>Finding.OSV = ''GO-2023-0003'', FixedVersion = [],
             Trace = [Some \<lparr>Module = ''stdlib'', Frame.Version = [], Package = ''net/http'',
                            Function = [], Receiver = [], Position = None\<rparr>]\<rparr>) \<and>
   ConvertGovulncheckFinding \<lparr>Finding.OSV = ''GO-2023-0003'', FixedVersion = [], Trace = []\<rparr>
     = Inl IndexOutOfRange \<and>
   ConvertGovulncheckFinding \<lparr>Finding.OSV = ''GO-2023-0003'', FixedVersion = [], Trace = [None]\<rparr>
     = Inl NilPointerDereference"
  using
    ConvertGovulncheckFinding_defined
      [of "\<lparr>Finding.OSV = ''GO-2023-0003'', FixedVersion = [],
            Trace = [Some \<lparr>Module = ''stdlib'', Frame.Version = [], Package = ''net/http'',
                           Function = [], Receiver = [], Position = None\<rparr>]\<rparr>"]
    ConvertGovulncheckFinding_defined
      [of "\<lparr>Finding.OSV = ''GO-2023-0003'', FixedVersion = [], Trace = []\<rparr>"]
    ConvertGovulncheckFinding_defined
      [of "\<lparr>Finding.OSV = ''GO-2023-0003'', FixedVersion = [], Trace = [None]\<rparr>"]
  by auto

text \<open>
  The precondition of a non-empty trace does not keep the function from failing: here
  the trace has two entries, the first of them \<^verbatim>\<open>nil\<close>.
\<close>

theorem ConvertGovulncheckFinding_nonempty_trace_counterexample:
  "Trace \<lparr>Finding.OSV = ''GO-2023-0002'', FixedVersion = ''v1.0.1'',
          Trace = [None, Some \<lparr>Module = ''stdlib'', Frame.Version = [], Package = ''net/http'',
                                 Function = ''Get'', Receiver = [], Position = None\<rparr>]\<rparr> \<noteq> [] \<and>
   isl (ConvertGovulncheckFinding
          \<lparr>Finding.OSV = ''GO-2023-0002'', FixedVersion = ''v1.0.1'',
           Trace = [None, Some \<lparr>Module = ''stdlib'', Frame.Version = [], Package = ''net/http'',
                                  Function = ''Get'', Receiver = [], Position = None\<rparr>]\<rparr>)"
  by (simp add: ConvertGovulncheckFinding_def)

section \<open>Work versions: properties\<close>

lemma Time_Equal_iff: "Time_Equal (t::Time) u \<longleftrightarrow> t = u"
  by (cases t; cases u) (simp add: Time_Equal_def)

lemma WorkVersion_eq_iff:
  "(v1::WorkVersion) = v2 \<longleftrightarrow>
     GoVersion v1 = GoVersion v2 \<and> WorkerVersion v1 = WorkerVersion v2 \<and>
     SchemaVersion v1 = SchemaVersion v2 \<and> VulnDBLastModified v1 = VulnDBLastModified v2"
  by (cases v1; cases v2) auto

lemma Equal_Some: "Equal (Some v1) (Some v2) \<longleftrightarrow> v1 = v2"
  by (simp add: Equal_def Time_Equal_iff WorkVersion_eq_iff)

text \<open>
  Claim C2. For work versions \<open>v1\<close> and \<open>v2\<close> behind non-nil pointers,
  \<^verbatim>\<open>v1.Equal(v2)\<close> holds iff the four fields \<open>GoVersion\<close>, \<open>WorkerVersion\<close>,
  \<open>SchemaVersion\<close> and \<open>VulnDBLastModified\<close> are equal (two timestamps being equal
  when they denote the same instant, to the nanosecond). The relation is reflexive and
  symmetric, and changing any single field to a different value, be it only the
  nanoseconds of \<open>VulnDBLastModified\<close>, makes the two unequal.
\<close>

theorem WorkVersion_Equal_fieldwise:
  "(Equal (Some v1) (Some v2) \<longleftrightarrow>
      GoVersion v1 = GoVersion v2 \<and> WorkerVersion v1 = WorkerVersion v2 \<and>
      SchemaVersion v1 = SchemaVersion v2 \<and> VulnDBLastModified v1 = VulnDBLastModified v2) \<and>
   Equal (Some v1) (Some v1) \<and>
   (Equal (Some v1) (Some v2) \<longleftrightarrow> Equal (Some v2) (Some v1)) \<and>
   (g \<noteq> GoVersion v1 \<longrightarrow> \<not> Equal (Some v1) (Some (v1\<lparr>GoVersion := g\<rparr>))) \<and>
   (w \<noteq> WorkerVersion v1 \<longrightarrow> \<not> Equal (Some v1) (Some (v1\<lparr>WorkerVersion := w\<rparr>))) \<and>
   (s \<noteq> SchemaVersion v1 \<longrightarrow> \<not> Equal (Some v1) (Some (v1\<lparr>SchemaVersion := s\<rparr>))) \<and>
   (t \<noteq> VulnDBLastModified v1 \<longrightarrow> \<not> Equal (Some v1) (Some (v1\<lparr>VulnDBLastModified := t\<rparr>))) \<and>
   (n \<noteq> nsec (VulnDBLastModified v1) \<longrightarrow>
      \<not> Equal (Some v1) (Some (v1\<lparr>VulnDBLastModified := (VulnDBLastModified v1)\<lparr>nsec := n\<rparr>\<rparr>)))"
proof -
  have fields: "Equal (Some v1) (Some v2) \<longleftrightarrow>
      GoVersion v1 = GoVersion v2 \<and> WorkerVersion v1 = WorkerVersion v2 \<and>
      SchemaVersion v1 = SchemaVersion v2 \<and> VulnDBLastModified v1 = VulnDBLastModified v2"
    by (simp add: Equal_def Time_Equal_iff)
  have reflexive: "Equal (Some v1) (Some v1)"
    by (simp add: Equal_Some)
  have symmetric: "Equal (Some v1) (Some v2) \<longleftrightarrow> Equal (Some v2) (Some v1)"
    by (auto simp add: Equal_Some)
  have d1: "g \<noteq> GoVersion v1 \<longrightarrow> \<not> Equal (Some v1) (Some (v1\<lparr>GoVersion := g\<rparr>))"
    by (simp add: Equal_def)
  have d2: "w \<noteq> WorkerVersion v1 \<longrightarrow> \<not> Equal (Some v1) (Some (v1\<lparr>WorkerVersion := w\<rparr>))"
    by (simp add: Equal_def)
  have d3: "s \<noteq> SchemaVersion v1 \<longrightarrow> \<not> Equal (Some v1) (Some (v1\<lparr>SchemaVersion := s\<rparr>))"
    by (simp add: Equal_def)
  have d4: "t \<noteq> VulnDBLastModified v1 \<longrightarrow> \<not> Equal (Some v1) (Some (v1\<lparr>VulnDBLastModified := t\<rparr>))"
    by (auto simp add: Equal_def Time_Equal_iff)
  have d5: "n \<noteq> nsec (VulnDBLastModified v1) \<longrightarrow>
      \<not> Equal (Some v1) (Some (v1\<lparr>VulnDBLastModified := (VulnDBLastModified v1)\<lparr>nsec := n\<rparr>\<rparr>))"
    by (simp add: Equal_def Time_Equal_def)
  from fields reflexive symmetric d1 d2 d3 d4 d5 show ?thesis by blast
qed

text \<open>Two work versions one nanosecond apart.\<close>

theorem WorkVersion_Equal_fieldwise_witness:
  "Equal (Some \<lparr>GoVersion = ''go1.21.0'', WorkerVersion = ''v0.3.1'', SchemaVersion = ''a1b2'',
                VulnDBLastModified = \<lparr>sec = 1700000000, nsec = 0\<rparr>\<rparr>)
         (Some \<lparr>GoVersion = ''go1.21.0'', WorkerVersion = ''v0.3.1'', SchemaVersion = ''a1b2'',
                VulnDBLastModified = \<lparr>sec = 1700000000, nsec = 0\<rparr>\<rparr>) \<and>
   \<not> Equal (Some \<lparr>GoVersion = ''go1.21.0'', WorkerVersion = ''v0.3.1'', SchemaVersion = ''a1b2'',
                  VulnDBLastModified = \<lparr>sec = 1700000000, nsec = 0\<rparr>\<rparr>)
           (Some \<lparr>GoVersion = ''go1.21.0'', WorkerVersion = ''v0.3.1'', SchemaVersion = ''a1b2'',
                  VulnDBLastModified = \<lparr>sec = 1700000000, nsec = 1\<rparr>\<rparr>)"
  using WorkVersion_Equal_fieldwise
    [of "\<lparr>GoVersion = ''go1.21.0'', WorkerVersion = ''v0.3.1'', SchemaVersion = ''a1b2'',
          VulnDBLastModified = \<lparr>sec = 1700000000, nsec = 0\<rparr>\<rparr>"
        "\<lparr>GoVersion = ''go1.21.0'', WorkerVersion = ''v0.3.1'', SchemaVersion = ''a1b2'',
          VulnDBLastModified = \<lparr>sec = 1700000000, nsec = 0\<rparr>\<rparr>"
        "''go1.21.0''" "''v0.3.1''" "''a1b2''" "\<lparr>sec = 1700000000, nsec = 0\<rparr>" 1]
  by simp

text \<open>
  Claim C6. When either pointer is \<^verbatim>\<open>nil\<close>, \<^verbatim>\<open>Equal\<close> returns false, and
  so does every skip decision that requires \<^verbatim>\<open>Equal\<close> next to another condition
  (here \<open>no_retryable_failure\<close>).
\<close>

theorem WorkVersion_Equal_nil:
  assumes "p1 = None \<or> p2 = None"
  shows "\<not> Equal p1 p2 \<and> \<not> (Equal p1 p2 \<and> no_retryable_failure)"
  using assms by (auto simp add: Equal_def split: option.splits)

theorem WorkVersion_Equal_nil_witness:
  "\<not> Equal None (Some \<lparr>GoVersion = ''go1.21.0'', WorkerVersion = ''v0.3.1'',
                         SchemaVersion = ''a1b2'',
                         VulnDBLastModified = \<lparr>sec = 1700000000, nsec = 0\<rparr>\<rparr>) \<and>
   \<not> Equal (Some \<lparr>GoVersion = ''go1.21.0'', WorkerVersion = ''v0.3.1'',
                    SchemaVersion = ''a1b2'',
                    VulnDBLastModified = \<lparr>sec = 1700000000, nsec = 0\<rparr>\<rparr>) None \<and>
   \<not> Equal None None"
  using
    WorkVersion_Equal_nil
      [of None "Some \<lparr>GoVersion = ''go1.21.0'', WorkerVersion = ''v0.3.1'',
                       SchemaVersion = ''a1b2'',
                       VulnDBLastModified = \<lparr>sec = 1700000000, nsec = 0\<rparr>\<rparr>" True]
    WorkVersion_Equal_nil
      [of "Some \<lparr>GoVersion = ''go1.21.0'', WorkerVersion = ''v0.3.1'',
                  SchemaVersion = ''a1b2'',
                  VulnDBLastModified = \<lparr>sec = 1700000000, nsec = 0\<rparr>\<rparr>" None True]
    WorkVersion_Equal_nil [of None None True]
  by simp

section \<open>Results: properties\<close>

text \<open>
  Claim C3, as the code has it. \<^verbatim>\<open>AddError\<close> with a non-nil error never changes
  \<open>Vulns\<close>. Applied to a result whose \<open>Vulns\<close> list is empty it yields a result
  that satisfies the invariant (a non-empty \<open>Error\<close> comes with an empty
  \<open>Vulns\<close>); applied to any result, the invariant holds afterwards exactly when
  \<open>Vulns\<close> was already empty or the error's text is empty.
\<close>

theorem AddError_invariant:
  "(Vulns vr = [] \<longrightarrow> error_excludes_vulns (AddError CategorizeError vr (Some e))) \<and>
   Vulns (AddError CategorizeError vr (Some e)) = Vulns vr \<and>
   (error_excludes_vulns (AddError CategorizeError vr (Some e)) \<longleftrightarrow>
      Vulns vr = [] \<or> error_Error e = [])"
  by (auto simp add: AddError_def error_excludes_vulns_def)

theorem AddError_invariant_witness:
  "error_excludes_vulns
     (AddError (\<lambda>e. ''MISC'') zero_Result (Some (errorString ''db unreachable''))) \<and>
   Error (AddError (\<lambda>e. ''MISC'') zero_Result (Some (errorString ''db unreachable''))) \<noteq> []"
  using AddError_invariant [of zero_Result "\<lambda>e. ''MISC''" "errorString ''db unreachable''"]
  by (simp add: AddError_def)

text \<open>
  \<^verbatim>\<open>AddError\<close> on a result that already holds a finding: the error is recorded
  and the finding stays.
\<close>

theorem AddError_keeps_vulns_counterexample:
  "(let vr = AddError (\<lambda>e. ''MISC'')
               (zero_Result\<lparr>Vulns := [Some \<lparr>ID = ''GO-2023-0001'',
                                             PackagePath = ''example.com/m/pkg'',
                                             ModulePath = ''example.com/m'', Version = ''v1.2.0'',
                                             Called = True\<rparr>]\<rparr>)
               (Some (errorString ''db unreachable''))
    in Error vr = ''db unreachable'' \<and> Vulns vr \<noteq> [] \<and> \<not> error_excludes_vulns vr)"
  by (simp add: AddError_def error_excludes_vulns_def)

text \<open>
  Claim C10. \<^verbatim>\<open>AddError\<close> with a \<^verbatim>\<open>nil\<close> error returns the result
  unchanged. With a non-nil error it sets \<open>Error\<close> to the error's text and
  \<open>ErrorCategory\<close> to its category, and every other field (creation time, module
  path, version, suffix, sort version, import count, commit time, scan seconds, build
  seconds, scan memory, scan mode, work version and findings) keeps its value.
\<close>

theorem AddError_frame:
  "AddError CategorizeError vr None = vr \<and>
   (let vr' = AddError CategorizeError vr (Some e)
    in Error vr' = error_Error e \<and>
       ErrorCategory vr' = CategorizeError e \<and>
       CreatedAt vr' = CreatedAt vr \<and>
       Result.ModulePath vr' = Result.ModulePath vr \<and>
       Result.Version vr' = Result.Version vr \<and>
       Suffix vr' = Suffix vr \<and>
       SortVersion vr' = SortVersion vr \<and>
       ImportedBy vr' = ImportedBy vr \<and>
       CommitTime vr' = CommitTime vr \<and>
       Result.ScanSeconds vr' = Result.ScanSeconds vr \<and>
       BinaryBuildSeconds vr' = BinaryBuildSeconds vr \<and>
       Result.ScanMemory vr' = Result.ScanMemory vr \<and>
       ScanMode vr' = ScanMode vr \<and>
       WorkVersion vr' = WorkVersion vr \<and>
       Vulns vr' = Vulns vr \<and>
       vr' = vr\<lparr>Error := error_Error e, ErrorCategory := CategorizeError e\<rparr>)"
  by (simp add: AddError_def Let_def)

theorem AddError_frame_witness:
  "AddError (\<lambda>e. ''MISC'') (zero_Result\<lparr>Result.ModulePath := ''example.com/m'', ImportedBy := 7\<rparr>)
     (Some (wrapError ''scan: db unreachable'' (errorString ''db unreachable'')))
   = zero_Result\<lparr>Result.ModulePath := ''example.com/m'', ImportedBy := 7,
                  Error := ''scan: db unreachable'', ErrorCategory := ''MISC''\<rparr> \<and>
   AddError (\<lambda>e. ''MISC'') (zero_Result\<lparr>Result.ModulePath := ''example.com/m'', ImportedBy := 7\<rparr>)
     None
   = zero_Result\<lparr>Result.ModulePath := ''example.com/m'', ImportedBy := 7\<rparr>"
  using AddError_frame
    [of "\<lambda>e. ''MISC''" "zero_Result\<lparr>Result.ModulePath := ''example.com/m'', ImportedBy := 7\<rparr>"
        "wrapError ''scan: db unreachable'' (errorString ''db unreachable'')"]
  by (simp add: Let_def)

section \<open>Scan runner: properties\<close>

lemma RunGovulncheckCmd_run_failed:
  assumes "run_err (Cmd_Run host (RunGovulncheckCmd_command (runtime_GOOS host) govulncheckPath
             modeFlag pattern moduleDir vulndbDir)) = Some err"
  shows "RunGovulncheckCmd host govulncheckPath modeFlag pattern moduleDir vulndbDir stats =
           (Inl (errorString (stdErr (Cmd_Run host (RunGovulncheckCmd_command (runtime_GOOS host)
              govulncheckPath modeFlag pattern moduleDir vulndbDir)))), stats)"
  using assms by (simp add: RunGovulncheckCmd_def Let_def)

lemma RunGovulncheckCmd_run_ok:
  assumes "run_err (Cmd_Run host (RunGovulncheckCmd_command (runtime_GOOS host) govulncheckPath
             modeFlag pattern moduleDir vulndbDir)) = None"
  shows "snd (RunGovulncheckCmd host govulncheckPath modeFlag pattern moduleDir vulndbDir stats) =
           stats\<lparr>ScanStats.ScanSeconds :=
                    Seconds (since_start (Cmd_Run host (RunGovulncheckCmd_command (runtime_GOOS host)
                      govulncheckPath modeFlag pattern moduleDir vulndbDir))),
                 ScanStats.ScanMemory :=
                    getMemoryUsage host (RunGovulncheckCmd_command (runtime_GOOS host)
                      govulncheckPath modeFlag pattern moduleDir vulndbDir)\<rparr>"
  using assms by (simp add: RunGovulncheckCmd_def Let_def split: sum.splits)

lemma ToSlash_windows:
  "ToSlash ''windows'' path = map (\<lambda>c. if c = CHR 0x5C then CHR ''/'' else c) path"
  by (simp add: ToSlash_def Separator_def)

lemma category_name_nonempty: "category_name c \<noteq> []"
  by (cases c) simp_all

lemma RunGovulncheckCmd_unfolded:
  "RunGovulncheckCmd host govulncheckPath modeFlag pattern moduleDir vulndbDir stats =
     (case run_err (Cmd_Run host (RunGovulncheckCmd_command (runtime_GOOS host) govulncheckPath
                      modeFlag pattern moduleDir vulndbDir)) of
        Some err \<Rightarrow>
          (Inl (errorString (stdErr (Cmd_Run host (RunGovulncheckCmd_command (runtime_GOOS host)
             govulncheckPath modeFlag pattern moduleDir vulndbDir)))), stats)
      | None \<Rightarrow>
          (HandleJSON host (stdOut (Cmd_Run host (RunGovulncheckCmd_command (runtime_GOOS host)
             govulncheckPath modeFlag pattern moduleDir vulndbDir))),
           stats\<lparr>ScanStats.ScanSeconds :=
                    Seconds (since_start (Cmd_Run host (RunGovulncheckCmd_command (runtime_GOOS host)
                      govulncheckPath modeFlag pattern moduleDir vulndbDir))),
                 ScanStats.ScanMemory :=
                    getMemoryUsage host (RunGovulncheckCmd_command (runtime_GOOS host)
                      govulncheckPath modeFlag pattern moduleDir vulndbDir)\<rparr>))"
  by (simp add: RunGovulncheckCmd_def Let_def split: option.split sum.split)

lemma RunGovulncheckCmd_command_eq:
  "RunGovulncheckCmd_command goos govulncheckPath modeFlag pattern moduleDir vulndbDir =
     \<lparr>Path = govulncheckPath,
      Args = [govulncheckPath, ''-mode'', modeFlag, ''-json'', ''-db'',
              (if goos = ''windows''
               then ''file:///'' @ map (\<lambda>c. if c = CHR 0x5C then CHR ''/'' else c) vulndbDir
               else ''file://'' @ vulndbDir)] @
             (if moduleDir = [] then [] else [''-C'', moduleDir]) @ [pattern]\<rparr>"
  by (simp add: RunGovulncheckCmd_command_def Command_def Let_def ToSlash_windows)

text \<open>
  Claim C4. When the subprocess ends with a non-zero status (\<^verbatim>\<open>Run\<close> returns an
  \<^verbatim>\<open>*ExitError\<close>), \<^verbatim>\<open>RunGovulncheckCmd\<close> returns no findings and the error
  \<^verbatim>\<open>errors.New\<close> of the captured standard error, whose text is that output. The
  standard output is not decoded: whatever the decoder is and whatever the subprocess
  wrote there, the outcome is the same.
\<close>

theorem RunGovulncheckCmd_nonzero_exit:
  fixes host :: Host and govulncheckPath modeFlag pattern moduleDir vulndbDir :: string
  defines "cmd \<equiv> RunGovulncheckCmd_command (runtime_GOOS host) govulncheckPath modeFlag pattern
                    moduleDir vulndbDir"
  assumes "run_err (Cmd_Run host cmd) = Some (ExitError code)" and "code \<noteq> 0"
  shows "fst (RunGovulncheckCmd host govulncheckPath modeFlag pattern moduleDir vulndbDir stats)
           = Inl (errorString (stdErr (Cmd_Run host cmd))) \<and>
         error_Error (errorString (stdErr (Cmd_Run host cmd))) = stdErr (Cmd_Run host cmd) \<and>
         RunGovulncheckCmd
           (host\<lparr>HandleJSON := decoder, Cmd_Run := (\<lambda>c. (Cmd_Run host c)\<lparr>stdOut := out\<rparr>)\<rparr>)
           govulncheckPath modeFlag pattern moduleDir vulndbDir stats
         = RunGovulncheckCmd host govulncheckPath modeFlag pattern moduleDir vulndbDir stats"
proof -
  let ?host' = "host\<lparr>HandleJSON := decoder, Cmd_Run := (\<lambda>c. (Cmd_Run host c)\<lparr>stdOut := out\<rparr>)\<rparr>"
  have failed: "RunGovulncheckCmd host govulncheckPath modeFlag pattern moduleDir vulndbDir stats =
           (Inl (errorString (stdErr (Cmd_Run host cmd))), stats)"
    using assms(2) unfolding cmd_def by (rule RunGovulncheckCmd_run_failed)
  have "run_err (Cmd_Run ?host' (RunGovulncheckCmd_command (runtime_GOOS ?host') govulncheckPath
             modeFlag pattern moduleDir vulndbDir)) = Some (ExitError code)"
    using assms(2) by (simp add: cmd_def)
  then have "RunGovulncheckCmd ?host' govulncheckPath modeFlag pattern moduleDir vulndbDir stats =
           (Inl (errorString (stdErr (Cmd_Run ?host' (RunGovulncheckCmd_command (runtime_GOOS ?host')
              govulncheckPath modeFlag pattern moduleDir vulndbDir)))), stats)"
    by (rule RunGovulncheckCmd_run_failed)
  then have "RunGovulncheckCmd ?host' govulncheckPath modeFlag pattern moduleDir vulndbDir stats =
           (Inl (errorString (stdErr (Cmd_Run host cmd))), stats)"
    by (simp add: cmd_def)
  with failed show ?thesis by simp
qed

theorem RunGovulncheckCmd_nonzero_exit_witness:
  "fst (RunGovulncheckCmd failing_Host ''govulncheck'' ''source'' ''./...'' ''/tmp/mod''
          ''/tmp/vulndb'' zero_ScanStats) = Inl (errorString ''db unreachable'') \<and>
   RunGovulncheckCmd
     (failing_Host\<lparr>HandleJSON := (\<lambda>out. Inl (errorString ''unexpected end of JSON input'')),
                   Cmd_Run := (\<lambda>c. (Cmd_Run failing_Host c)\<lparr>stdOut := []\<rparr>)\<rparr>)
     ''govulncheck'' ''source'' ''./...'' ''/tmp/mod'' ''/tmp/vulndb'' zero_ScanStats
   = RunGovulncheckCmd failing_Host ''govulncheck'' ''source'' ''./...'' ''/tmp/mod''
       ''/tmp/vulndb'' zero_ScanStats"
  using RunGovulncheckCmd_nonzero_exit
    [where host = failing_Host and govulncheckPath = "''govulncheck''" and modeFlag = "''source''"
       and pattern = "''./...''" and moduleDir = "''/tmp/mod''" and vulndbDir = "''/tmp/vulndb''"
       and code = 1 and stats = zero_ScanStats
       and decoder = "\<lambda>out. Inl (errorString ''unexpected end of JSON input'')" and out = "[]"]
  by simp

text \<open>
  Claim C5, as the code has it. When the subprocess exits with a non-zero status (or
  \<^verbatim>\<open>Run\<close> returns any other error), \<^verbatim>\<open>RunGovulncheckCmd\<close> returns the
  standard-error text as its error and leaves the statistics as the caller passed
  them: it returns before the duration is taken and before the memory is probed. The
  record aggregated from this outcome carries the standard-error text as \<open>Error\<close>,
  a non-empty \<open>ErrorCategory\<close> and no findings, whatever had been decoded, and its
  scan seconds and scan memory are those the caller's statistics held before the run.
  The statistics are written exactly when \<^verbatim>\<open>Run\<close> returns no error: the duration
  since the start and the value of \<^verbatim>\<open>getMemoryUsage\<close>, which is zero for the
  function the variable starts with.
\<close>

theorem RunGovulncheckCmd_failure_record:
  fixes host :: Host and govulncheckPath modeFlag pattern moduleDir vulndbDir :: string
    and stats :: ScanStats and target :: Result and classify :: "string \<Rightarrow> category"
    and vulns :: "Vuln option list"
  defines "cmd \<equiv> RunGovulncheckCmd_command (runtime_GOOS host) govulncheckPath modeFlag pattern
                    moduleDir vulndbDir"
  defines "res \<equiv> RunGovulncheckCmd host govulncheckPath modeFlag pattern moduleDir vulndbDir stats"
  defines "row \<equiv> Aggregate (derrors_CategorizeError classify) target (snd res)
                    (case fst res of Inl e \<Rightarrow> Some e | Inr findings \<Rightarrow> None) vulns"
  shows "(run_err (Cmd_Run host cmd) = Some err \<longrightarrow>
            fst res = Inl (errorString (stdErr (Cmd_Run host cmd))) \<and>
            snd res = stats \<and>
            Error row = stdErr (Cmd_Run host cmd) \<and>
            ErrorCategory row \<noteq> [] \<and>
            Vulns row = [] \<and>
            Result.ScanSeconds row = ScanStats.ScanSeconds stats \<and>
            Result.ScanMemory row = ScanStats.ScanMemory stats) \<and>
         (run_err (Cmd_Run host cmd) = None \<longrightarrow>
            snd res = stats\<lparr>ScanStats.ScanSeconds := Seconds (since_start (Cmd_Run host cmd)),
                             ScanStats.ScanMemory := getMemoryUsage host cmd\<rparr>) \<and>
         getMemoryUsage_default cmd = 0"
proof -
  have failure: "res = (Inl (errorString (stdErr (Cmd_Run host cmd))), stats)"
    if "run_err (Cmd_Run host cmd) = Some err"
    using that unfolding cmd_def res_def by (rule RunGovulncheckCmd_run_failed)
  have success: "snd res = stats\<lparr>ScanStats.ScanSeconds := Seconds (since_start (Cmd_Run host cmd)),
                             ScanStats.ScanMemory := getMemoryUsage host cmd\<rparr>"
    if "run_err (Cmd_Run host cmd) = None"
    using that unfolding cmd_def res_def by (rule RunGovulncheckCmd_run_ok)
  have aggregated:
    "Error (Aggregate (derrors_CategorizeError classify) target stats (Some e) vulns)
       = error_Error e \<and>
     ErrorCategory (Aggregate (derrors_CategorizeError classify) target stats (Some e) vulns)
       \<noteq> [] \<and>
     Vulns (Aggregate (derrors_CategorizeError classify) target stats (Some e) vulns) = [] \<and>
     Result.ScanSeconds (Aggregate (derrors_CategorizeError classify) target stats (Some e) vulns)
       = ScanStats.ScanSeconds stats \<and>
     Result.ScanMemory (Aggregate (derrors_CategorizeError classify) target stats (Some e) vulns)
       = ScanStats.ScanMemory stats" for e
    by (simp add: Aggregate_def AddError_def Let_def derrors_CategorizeError_def
        category_name_nonempty)
  have failed_row: "Error row = stdErr (Cmd_Run host cmd) \<and> ErrorCategory row \<noteq> [] \<and>
      Vulns row = [] \<and> Result.ScanSeconds row = ScanStats.ScanSeconds stats \<and>
      Result.ScanMemory row = ScanStats.ScanMemory stats"
    if "run_err (Cmd_Run host cmd) = Some err"
    using failure [OF that] aggregated [of "errorString (stdErr (Cmd_Run host cmd))"]
    by (simp add: row_def)
  show ?thesis
    using failure success failed_row by (simp add: getMemoryUsage_default_def)
qed

text \<open>
  The scanner exits with status 1 and the diagnostic \<^verbatim>\<open>db unreachable\<close>; the
  statistics started at zero, and a finding is offered to the aggregator.
\<close>

theorem RunGovulncheckCmd_failure_record_witness:
  "(let row = Aggregate (derrors_CategorizeError (\<lambda>text. Named (CHR ''M'') ''ISC''))
                (zero_Result\<lparr>Result.ModulePath := ''example.com/m'',
                              Result.Version := ''v1.2.0''\<rparr>)
                (snd (RunGovulncheckCmd failing_Host ''govulncheck'' ''source'' ''./...''
                        ''/tmp/mod'' ''/tmp/vulndb'' zero_ScanStats))
                (case fst (RunGovulncheckCmd failing_Host ''govulncheck'' ''source'' ''./...''
                             ''/tmp/mod'' ''/tmp/vulndb'' zero_ScanStats) of
                   Inl e \<Rightarrow> Some e | Inr findings \<Rightarrow> None)
                [Some \<lparr>ID = ''GO-2023-0001'', PackagePath = ''example.com/m/pkg'',
                        ModulePath = ''example.com/m'', Version = ''v1.2.0'', Called = True\<rparr>]
    in Error row = ''db unreachable'' \<and> ErrorCategory row \<noteq> [] \<and> Vulns row = [] \<and>
       Result.ScanSeconds row = 0 \<and> Result.ScanMemory row = 0)"
proof -
  have failed: "run_err (Cmd_Run failing_Host
      (RunGovulncheckCmd_command (runtime_GOOS failing_Host) ''govulncheck'' ''source'' ''./...''
         ''/tmp/mod'' ''/tmp/vulndb'')) = Some (ExitError 1)"
    by simp
  have stderr_text: "stdErr (Cmd_Run failing_Host
      (RunGovulncheckCmd_command (runtime_GOOS failing_Host) ''govulncheck'' ''source'' ''./...''
         ''/tmp/mod'' ''/tmp/vulndb'')) = ''db unreachable''"
    by simp
  have zero: "ScanStats.ScanSeconds zero_ScanStats = 0 \<and> ScanStats.ScanMemory zero_ScanStats = 0"
    by simp
  note row =
    RunGovulncheckCmd_failure_record
      [where host = failing_Host and govulncheckPath = "''govulncheck''"
         and modeFlag = "''source''" and pattern = "''./...''" and moduleDir = "''/tmp/mod''"
         and vulndbDir = "''/tmp/vulndb''" and err = "ExitError 1" and stats = zero_ScanStats
         and target = "zero_Result\<lparr>Result.ModulePath := ''example.com/m'',
                                    Result.Version := ''v1.2.0''\<rparr>"
         and classify = "\<lambda>text. Named (CHR ''M'') ''ISC''"
         and vulns = "[Some \<lparr>ID = ''GO-2023-0001'', PackagePath = ''example.com/m/pkg'',
                               ModulePath = ''example.com/m'', Version = ''v1.2.0'',
                               Called = True\<rparr>]",
       THEN conjunct1, THEN mp, OF failed]
  show ?thesis
    unfolding Let_def using row stderr_text zero by metis
qed

text \<open>
  The scanner exits with status 1 after 2.5 seconds; the statistics started at zero.
  The scan duration in the statistics is still zero afterwards, not the time up to the
  failure.
\<close>

theorem RunGovulncheckCmd_failure_duration_counterexample:
  "ScanStats.ScanSeconds
     (snd (RunGovulncheckCmd failing_Host ''govulncheck'' ''source'' ''./...'' ''/tmp/mod''
             ''/tmp/vulndb'' zero_ScanStats)) = 0 \<and>
   Seconds (since_start (Cmd_Run failing_Host
              (RunGovulncheckCmd_command (runtime_GOOS failing_Host) ''govulncheck'' ''source''
                 ''./...'' ''/tmp/mod'' ''/tmp/vulndb''))) = 5 / 2"
  by (simp add: RunGovulncheckCmd_def Seconds_def)

text \<open>
  Claim C8. For every database directory, \<^verbatim>\<open>RunGovulncheckCmd\<close> runs the scanner
  on the command whose arguments carry, right after \<^verbatim>\<open>-db\<close>, a file URI made
  from the directory, and what it returns is decided by the outcome of that run: the
  error made of its standard error, or the decoding of its standard output with the
  statistics of that run. On Windows the URI is \<^verbatim>\<open>file:///\<close> followed by the
  directory with every backslash turned into a slash, so it holds no backslash;
  elsewhere it is \<^verbatim>\<open>file://\<close> followed by the directory as it is. No other
  command is run.
\<close>

theorem RunGovulncheckCmd_db_uri:
  fixes host :: Host and govulncheckPath modeFlag pattern moduleDir vulndbDir :: string
  defines "uri \<equiv> (if runtime_GOOS host = ''windows''
                   then ''file:///'' @ map (\<lambda>c. if c = CHR 0x5C then CHR ''/'' else c) vulndbDir
                   else ''file://'' @ vulndbDir)"
  defines "cmd \<equiv> \<lparr>Path = govulncheckPath,
                   Args = [govulncheckPath, ''-mode'', modeFlag, ''-json'', ''-db'', uri] @
                          (if moduleDir = [] then [] else [''-C'', moduleDir]) @ [pattern]\<rparr>"
  shows "RunGovulncheckCmd host govulncheckPath modeFlag pattern moduleDir vulndbDir stats =
           (case run_err (Cmd_Run host cmd) of
              Some err \<Rightarrow> (Inl (errorString (stdErr (Cmd_Run host cmd))), stats)
            | None \<Rightarrow>
                (HandleJSON host (stdOut (Cmd_Run host cmd)),
                 stats\<lparr>ScanStats.ScanSeconds := Seconds (since_start (Cmd_Run host cmd)),
                       ScanStats.ScanMemory := getMemoryUsage host cmd\<rparr>)) \<and>
         (runtime_GOOS host = ''windows'' \<longrightarrow> CHR 0x5C \<notin> set uri) \<and>
         (runtime_GOOS host \<noteq> ''windows'' \<longrightarrow> uri = ''file://'' @ vulndbDir) \<and>
         RunGovulncheckCmd_command (runtime_GOOS host) govulncheckPath modeFlag pattern moduleDir
           vulndbDir = cmd \<and>
         RunGovulncheckCmd host govulncheckPath modeFlag pattern moduleDir vulndbDir stats =
           RunGovulncheckCmd (host\<lparr>Cmd_Run := (\<lambda>c. Cmd_Run host cmd)\<rparr>)
             govulncheckPath modeFlag pattern moduleDir vulndbDir stats"
proof -
  have command: "RunGovulncheckCmd_command (runtime_GOOS host) govulncheckPath modeFlag pattern
      moduleDir vulndbDir = cmd"
    unfolding cmd_def uri_def by (rule RunGovulncheckCmd_command_eq)
  have pinned: "RunGovulncheckCmd host govulncheckPath modeFlag pattern moduleDir vulndbDir stats =
           (case run_err (Cmd_Run host cmd) of
              Some err \<Rightarrow> (Inl (errorString (stdErr (Cmd_Run host cmd))), stats)
            | None \<Rightarrow>
                (HandleJSON host (stdOut (Cmd_Run host cmd)),
                 stats\<lparr>ScanStats.ScanSeconds := Seconds (since_start (Cmd_Run host cmd)),
                       ScanStats.ScanMemory := getMemoryUsage host cmd\<rparr>))"
    using RunGovulncheckCmd_unfolded
      [of host govulncheckPath modeFlag pattern moduleDir vulndbDir stats]
    by (simp only: command)
  have slashes: "runtime_GOOS host = ''windows'' \<longrightarrow> CHR 0x5C \<notin> set uri"
    by (auto simp add: uri_def)
  have plain: "runtime_GOOS host \<noteq> ''windows'' \<longrightarrow> uri = ''file://'' @ vulndbDir"
    by (simp add: uri_def)
  have same: "RunGovulncheckCmd host govulncheckPath modeFlag pattern moduleDir vulndbDir stats =
           RunGovulncheckCmd (host\<lparr>Cmd_Run := (\<lambda>c. Cmd_Run host cmd)\<rparr>)
             govulncheckPath modeFlag pattern moduleDir vulndbDir stats"
    unfolding command [symmetric]
    by (simp add: RunGovulncheckCmd_def Let_def split: option.split)
  from pinned slashes plain command same show ?thesis by blast
qed

text \<open>
  The directories \<^verbatim>\<open>/tmp/vulndb\<close> on Linux and \<^verbatim>\<open>C:\db\v\<close> on Windows,
  on hosts whose scanner checks the URI it is given; and a host that expects another
  URI, where the scanner fails.
\<close>

theorem RunGovulncheckCmd_db_uri_witness:
  "RunGovulncheckCmd (db_checking_Host ''linux'' ''file:///tmp/vulndb'') ''govulncheck''
     ''source'' ''./...'' ''/tmp/mod'' ''/tmp/vulndb'' zero_ScanStats
   = (Inr [Some \<lparr>Finding.OSV = ''GO-2023-0001'', FixedVersion = [], Trace = []\<rparr>],
      \<lparr>ScanSeconds = 1, ScanMemory = 0, BuildTime = 0\<rparr>) \<and>
   RunGovulncheckCmd (db_checking_Host ''windows'' ''file:///C:/db/v'') ''govulncheck.exe''
     ''binary'' ''app.exe'' []
     [CHR ''C'', CHR '':'', CHR 0x5C, CHR ''d'', CHR ''b'', CHR 0x5C, CHR ''v''] zero_ScanStats
   = (Inr [Some \<lparr>Finding.OSV = ''GO-2023-0001'', FixedVersion = [], Trace = []\<rparr>],
      \<lparr>ScanSeconds = 1, ScanMemory = 0, BuildTime = 0\<rparr>) \<and>
   RunGovulncheckCmd (db_checking_Host ''linux'' ''file:///C:/db/v'') ''govulncheck''
     ''source'' ''./...'' ''/tmp/mod'' ''/tmp/vulndb'' zero_ScanStats
   = (Inl (errorString ''unexpected database''), zero_ScanStats)"
  using
    RunGovulncheckCmd_db_uri
      [where host = "db_checking_Host ''linux'' ''file:///tmp/vulndb''"
         and govulncheckPath = "''govulncheck''" and modeFlag = "''source''"
         and pattern = "''./...''" and moduleDir = "''/tmp/mod''" and vulndbDir = "''/tmp/vulndb''"
         and stats = zero_ScanStats]
    RunGovulncheckCmd_db_uri
      [where host = "db_checking_Host ''windows'' ''file:///C:/db/v''"
         and govulncheckPath = "''govulncheck.exe''" and modeFlag = "''binary''"
         and pattern = "''app.exe''" and moduleDir = "[]"
         and vulndbDir = "[CHR ''C'', CHR '':'', CHR 0x5C, CHR ''d'', CHR ''b'', CHR 0x5C, CHR ''v'']"
         and stats = zero_ScanStats]
    RunGovulncheckCmd_db_uri
      [where host = "db_checking_Host ''linux'' ''file:///C:/db/v''"
         and govulncheckPath = "''govulncheck''" and modeFlag = "''source''"
         and pattern = "''./...''" and moduleDir = "''/tmp/mod''" and vulndbDir = "''/tmp/vulndb''"
         and stats = zero_ScanStats]
  by (simp add: Seconds_def getMemoryUsage_default_def)


section \<open>Message protocol decoder: properties\<close>

lemma payload_of_None_iff: "payload_of m = None \<longleftrightarrow> populated m \<noteq> 1"
  by (simp add: payload_of_def populated_def split: option.splits)

lemma decode_chunks_malformed:
  "Structured m \<in> set cs \<Longrightarrow> payload_of m = None \<Longrightarrow>
   decode_chunks cs b = Inl MalformedMessageError"
proof (induction cs b rule: decode_chunks.induct)
  case (1 is_cut)
  then show ?case by simp
next
  case (2 rest is_cut)
  then show ?case by simp
next
  case (3 m' rest is_cut)
  show ?case
  proof (cases "payload_of m'")
    case None
    then show ?thesis by simp
  next
    case (Some p)
    with "3.prems" have "Structured m \<in> set rest" by auto
    with "3.IH" Some "3.prems" have "decode_chunks rest is_cut = Inl MalformedMessageError"
      by simp
    with Some show ?thesis by simp
  qed
qed

text \<open>
  Claim C9, for the decoder modelled from the specification. If a stream contains a
  message in which no payload field or more than one payload field (config, progress,
  osv entry, finding) is populated, decoding the stream fails with
  \<open>MalformedMessageError\<close>: the message is neither dropped nor accepted.
\<close>

theorem decode_rejects_malformed:
  assumes "Structured m \<in> set (chunks s)" and "populated m \<noteq> 1"
  shows "decode s = Inl MalformedMessageError"
  using assms by (simp add: decode_def decode_chunks_malformed payload_of_None_iff)

text \<open>
  A finding followed by a message with no field, and a message with both a progress
  note and a finding.
\<close>

theorem decode_rejects_malformed_witness:
  "decode \<lparr>chunks = [Structured \<lparr>Config = None, Progress = None, OSV = None,
                                   Finding = Some \<lparr>Finding.OSV = ''GO-2023-0001'',
                                                   FixedVersion = [], Trace = []\<rparr>\<rparr>,
                      Structured \<lparr>Config = None, Progress = None, OSV = (None :: string option),
                                   Finding = None\<rparr>],
            truncated = False\<rparr> = Inl MalformedMessageError \<and>
   decode \<lparr>chunks = [Structured \<lparr>Config = None,
                                   Progress = Some \<lparr>Timestamp = None, Message = ''scanning''\<rparr>,
                                   OSV = (None :: string option),
                                   Finding = Some \<lparr>Finding.OSV = ''GO-2023-0001'',
                                                   FixedVersion = [], Trace = []\<rparr>\<rparr>],
            truncated = False\<rparr> = Inl MalformedMessageError"
  using
    decode_rejects_malformed
      [of "\<lparr>Config = None, Progress = None, OSV = (None :: string option), Finding = None\<rparr>"
          "\<lparr>chunks = [Structured \<lparr>Config = None, Progress = None, OSV = None,
                                   Finding = Some \<lparr>Finding.OSV = ''GO-2023-0001'',
                                                   FixedVersion = [], Trace = []\<rparr>\<rparr>,
                      Structured \<lparr>Config = None, Progress = None, OSV = (None :: string option),
                                   Finding = None\<rparr>],
            truncated = False\<rparr>"]
    decode_rejects_malformed
      [of "\<lparr>Config = None,
            Progress = Some \<lparr>Timestamp = None, Message = ''scanning''\<rparr>,
            OSV = (None :: string option),
            Finding = Some \<lparr>Finding.OSV = ''GO-2023-0001'', FixedVersion = [], Trace = []\<rparr>\<rparr>"
          "\<lparr>chunks = [Structured \<lparr>Config = None,
                                   Progress = Some \<lparr>Timestamp = None, Message = ''scanning''\<rparr>,
                                   OSV = (None :: string option),
                                   Finding = Some \<lparr>Finding.OSV = ''GO-2023-0001'',
                                                   FixedVersion = [], Trace = []\<rparr>\<rparr>],
            truncated = False\<rparr>"]
  by (simp add: populated_def)

end
